theory Spec2Isabelle
  imports Main
begin

section \<open>Chatroom routes of the shop backend (app/routes/chatrooms.py)\<close>

text \<open>
  The four route handlers of \<^verbatim>\<open>app/routes/chatrooms.py\<close> are embedded as functions
  from the request's inputs and the document store to the new store and the outcome
  of the request. Everything the handlers read from their environment is an explicit
  argument: the authenticated identity (\<^verbatim>\<open>Depends(get_current_user)\<close>), the readings of
  the clock (\<^verbatim>\<open>datetime.utcnow().isoformat()\<close>) and the \<^verbatim>\<open>_id\<close> that the driver
  generates for an inserted chatroom.
\<close>

subsection \<open>Errors\<close>

text \<open>
  \<^verbatim>\<open>HTTPException(status_code, detail)\<close> is the only exception the handlers raise
  themselves. \<^verbatim>\<open>InvalidId\<close> is what the constructor \<^verbatim>\<open>bson.ObjectId\<close> raises; no
  handler catches it.
\<close>

datatype error = HTTPException nat string | InvalidId

subsection \<open>ObjectId\<close>

text \<open>
  \<^verbatim>\<open>bson.ObjectId\<close> is a library class, not code of this repository. Its constructor,
  given a \<^verbatim>\<open>str\<close>, decodes it with \<^verbatim>\<open>bytes.fromhex\<close> when its length is 24 and raises
  \<^verbatim>\<open>InvalidId\<close> when the length is not 24 or the decoding fails. \<^verbatim>\<open>bytes.fromhex\<close> reads
  the string from the left: it skips ASCII whitespace where a byte would start, then
  needs two adjacent hexadecimal digits (either case) for the byte. So a string of 24
  hexadecimal digits gives 12 bytes, and a string of 24 characters with whitespace
  between its bytes is accepted too, with fewer bytes. \<^verbatim>\<open>str(oid)\<close> is the lower-case
  hexadecimal rendering of the bytes. An ObjectId is modelled as its bytes.
\<close>

type_synonym objectid = "nat list"

definition hex_digit :: "char \<Rightarrow> nat option" where
  "hex_digit = map_of
     [(CHR ''0'', 0), (CHR ''1'', 1), (CHR ''2'', 2), (CHR ''3'', 3), (CHR ''4'', 4),
      (CHR ''5'', 5), (CHR ''6'', 6), (CHR ''7'', 7), (CHR ''8'', 8), (CHR ''9'', 9),
      (CHR ''a'', 10), (CHR ''b'', 11), (CHR ''c'', 12), (CHR ''d'', 13), (CHR ''e'', 14),
      (CHR ''f'', 15),
      (CHR ''A'', 10), (CHR ''B'', 11), (CHR ''C'', 12), (CHR ''D'', 13), (CHR ''E'', 14),
      (CHR ''F'', 15)]"

text \<open>\<^verbatim>\<open>Py_ISSPACE\<close>: tab, line feed, vertical tab, form feed, carriage return, space.\<close>

definition isspace :: "char \<Rightarrow> bool" where
  "isspace c \<longleftrightarrow> c \<in> set [CHR 0x09, CHR 0x0A, CHR 0x0B, CHR 0x0C, CHR 0x0D, CHR 0x20]"

fun fromhex :: "string \<Rightarrow> nat list option" where
  "fromhex [] = Some []"
| "fromhex [a] = (if isspace a then Some [] else None)"
| "fromhex (a # b # cs) =
     (if isspace a then fromhex (b # cs)
      else
        (case hex_digit a of
           None \<Rightarrow> None
         | Some h \<Rightarrow>
             (case hex_digit b of
                None \<Rightarrow> None
              | Some l \<Rightarrow>
                  (case fromhex cs of
                     None \<Rightarrow> None
                   | Some bs \<Rightarrow> Some ((16 * h + l) # bs)))))"

definition ObjectId :: "string \<Rightarrow> error + objectid" where
  "ObjectId oid =
     (if length oid = 24
      then (case fromhex oid of None \<Rightarrow> Inl InvalidId | Some bs \<Rightarrow> Inr bs)
      else Inl InvalidId)"

definition hexlify :: "nat \<Rightarrow> string" where
  "hexlify b = [''0123456789abcdef'' ! ((b div 16) mod 16), ''0123456789abcdef'' ! (b mod 16)]"

definition str :: "objectid \<Rightarrow> string" where
  "str oid = concat (map hexlify oid)"

subsection \<open>Documents and the store\<close>

text \<open>
  The documents carry the fields the handlers write and read. A chatroom document is
  \<^verbatim>\<open>{_id, user_id, seller_id, created_at}\<close>; a message document is the dictionary
  \<^verbatim>\<open>send_message\<close> inserts (its \<^verbatim>\<open>_id\<close> is never read by any handler and is left out);
  a seller document has \<^verbatim>\<open>seller_id\<close> and may lack \<^verbatim>\<open>name\<close> and \<^verbatim>\<open>image\<close>.
\<close>

record chatroom =
  c_id :: objectid
  c_user_id :: string
  c_seller_id :: string
  c_created_at :: string

record message_doc =
  m_chatroom_id :: string
  m_user_id :: string
  m_username :: string
  m_content :: string
  m_timestamp :: string

record seller =
  s_seller_id :: string
  s_name :: "string option"
  s_image :: "string option"

text \<open>The pydantic models \<^verbatim>\<open>Message\<close> and \<^verbatim>\<open>ChatroomResponse\<close>, and the identity
  \<^verbatim>\<open>get_current_user\<close> yields (\<^verbatim>\<open>user["user_id"]\<close>, \<^verbatim>\<open>user["username"]\<close>).\<close>

record Message =
  user_id :: string
  username :: string
  content :: string
  timestamp :: string

record ChatroomResponse =
  r_chatroom_id :: string
  r_seller_name :: string
  r_seller_avatar :: string

record current_user =
  u_user_id :: string
  u_username :: string

text \<open>\<^verbatim>\<open>db\<close>: the three collections, each in its natural (insertion) order.\<close>

record store =
  chatrooms :: "chatroom list"
  messages :: "message_doc list"
  sellers :: "seller list"

text \<open>The driver's operations: \<^verbatim>\<open>find_one\<close> yields the first matching document or
  \<^verbatim>\<open>None\<close>, \<^verbatim>\<open>find(...).to_list(n)\<close> the first \<open>n\<close> matching documents, \<^verbatim>\<open>insert_one\<close>
  appends.\<close>

definition find_one :: "('a \<Rightarrow> bool) \<Rightarrow> 'a list \<Rightarrow> 'a option" where
  "find_one q coll = (case filter q coll of [] \<Rightarrow> None | d # _ \<Rightarrow> Some d)"

definition find_docs :: "('a \<Rightarrow> bool) \<Rightarrow> 'a list \<Rightarrow> 'a list" where
  "find_docs q coll = filter q coll"

definition to_list :: "nat \<Rightarrow> 'a list \<Rightarrow> 'a list" where
  "to_list n cursor = take n cursor"

definition insert_one :: "'a \<Rightarrow> 'a list \<Rightarrow> 'a list" where
  "insert_one d coll = coll @ [d]"

subsection \<open>Responses\<close>

text \<open>
  \<^verbatim>\<open>ChatroomCreated st cid msg\<close> is \<^verbatim>\<open>{"status": st, "data": {"chatroom_id": cid, "message": msg}}\<close>,
  \<^verbatim>\<open>MessageList ms\<close> the list \<^verbatim>\<open>get_messages\<close> returns,
  \<^verbatim>\<open>MessageSent st msg\<close> is \<^verbatim>\<open>{"status": st, "data": {"message": msg}}\<close> and
  \<^verbatim>\<open>ChatroomList st rs\<close> is \<^verbatim>\<open>{"status": st, "data": {"chatrooms": rs}}\<close>.
\<close>

datatype response =
    ChatroomCreated string string string
  | MessageList "Message list"
  | MessageSent string string
  | ChatroomList string "ChatroomResponse list"

type_synonym outcome = "store \<times> (error + response)"

subsection \<open>The handlers\<close>

text \<open>\<^verbatim>\<open>create_chatroom(seller_id, user)\<close>; \<open>now\<close> is the clock reading and \<open>new_id\<close> the
  generated \<^verbatim>\<open>_id\<close> of the inserted document.\<close>

definition create_chatroom ::
  "string \<Rightarrow> current_user \<Rightarrow> string \<Rightarrow> objectid \<Rightarrow> store \<Rightarrow> outcome" where
  "create_chatroom seller_id user now new_id db =
     (if u_user_id user = seller_id
      then (db, Inl (HTTPException 400 ''User cannot create a chatroom with themselves.''))
      else
        (case find_one (\<lambda>c. c_user_id c = u_user_id user \<and> c_seller_id c = seller_id)
                (chatrooms db) of
           Some existing_chatroom \<Rightarrow>
             (db, Inl (HTTPException 400
                         ''Chatroom already exists between this user and seller.''))
         | None \<Rightarrow>
             (let chatroom_data =
                    \<lparr>c_id = new_id, c_user_id = u_user_id user, c_seller_id = seller_id,
                     c_created_at = now\<rparr>
              in (db\<lparr>chatrooms := insert_one chatroom_data (chatrooms db)\<rparr>,
                  Inr (ChatroomCreated ''OK'' (str new_id)
                         ''Chatroom created successfully'')))))"

text \<open>The membership query both message handlers send:
  \<^verbatim>\<open>{"_id": oid, "$or": [{"user_id": uid}, {"seller_id": uid}]}\<close>.\<close>

definition member_query :: "objectid \<Rightarrow> string \<Rightarrow> chatroom \<Rightarrow> bool" where
  "member_query oid uid c \<longleftrightarrow> c_id c = oid \<and> (c_user_id c = uid \<or> c_seller_id c = uid)"

definition get_messages :: "string \<Rightarrow> current_user \<Rightarrow> store \<Rightarrow> outcome" where
  "get_messages chatroom_id user db =
     (case ObjectId chatroom_id of
        Inl e \<Rightarrow> (db, Inl e)
      | Inr oid \<Rightarrow>
          (case find_one (member_query oid (u_user_id user)) (chatrooms db) of
             None \<Rightarrow>
               (db, Inl (HTTPException 404
                           ''Chatroom not found or you are not part of this chatroom''))
           | Some chatroom \<Rightarrow>
               (let msgs = to_list 100
                             (find_docs (\<lambda>m. m_chatroom_id m = chatroom_id) (messages db))
                in if msgs = []
                   then (db, Inl (HTTPException 404 ''No messages found in this chatroom''))
                   else (db, Inr (MessageList
                           (map (\<lambda>message.
                                   \<lparr>user_id = m_user_id message,
                                    username = m_username message,
                                    content = m_content message,
                                    timestamp = m_timestamp message\<rparr>) msgs))))))"

text \<open>\<^verbatim>\<open>send_message(chatroom_id, message, user)\<close>; \<open>now1\<close> and \<open>now2\<close> are the two clock
  readings, in the order the handler takes them.\<close>

definition send_message ::
  "string \<Rightarrow> Message \<Rightarrow> current_user \<Rightarrow> string \<Rightarrow> string \<Rightarrow> store \<Rightarrow> outcome" where
  "send_message chatroom_id message user now1 now2 db =
     (case ObjectId chatroom_id of
        Inl e \<Rightarrow> (db, Inl e)
      | Inr oid \<Rightarrow>
          (case find_one (member_query oid (u_user_id user)) (chatrooms db) of
             None \<Rightarrow>
               (db, Inl (HTTPException 404
                           ''Chatroom not found or you are not part of this chatroom''))
           | Some chatroom \<Rightarrow>
               (let user_message =
                      \<lparr>m_chatroom_id = chatroom_id, m_user_id = u_user_id user,
                       m_username = u_username user, m_content = content message,
                       m_timestamp = now1\<rparr>;
                    db1 = db\<lparr>messages := insert_one user_message (messages db)\<rparr>;
                    seller_reply =
                      \<lparr>m_chatroom_id = chatroom_id, m_user_id = c_seller_id chatroom,
                       m_username = ''Seller'',
                       m_content =
                         ''Thank you for your message. We will get back to you shortly.'',
                       m_timestamp = now2\<rparr>;
                    db2 = db1\<lparr>messages := insert_one seller_reply (messages db1)\<rparr>
                in (db2, Inr (MessageSent ''OK'' ''Message sent successfully'')))))"

text \<open>The loop of \<^verbatim>\<open>get_user_chatrooms\<close> over the fetched chatrooms, with the list
  \<^verbatim>\<open>chatroom_responses\<close> it appends to.\<close>

fun chatroom_loop ::
  "seller list \<Rightarrow> chatroom list \<Rightarrow> ChatroomResponse list \<Rightarrow> ChatroomResponse list" where
  "chatroom_loop sl [] chatroom_responses = chatroom_responses"
| "chatroom_loop sl (chatroom # rest) chatroom_responses =
     (case find_one (\<lambda>s. s_seller_id s = c_seller_id chatroom) sl of
        Some seller \<Rightarrow>
          chatroom_loop sl rest
            (chatroom_responses @
              [\<lparr>r_chatroom_id = str (c_id chatroom),
                r_seller_name = (case s_name seller of None \<Rightarrow> ''Unknown'' | Some n \<Rightarrow> n),
                r_seller_avatar = (case s_image seller of None \<Rightarrow> '''' | Some i \<Rightarrow> i)\<rparr>])
      | None \<Rightarrow> chatroom_loop sl rest chatroom_responses)"

text \<open>What one pass of the loop body appends for a chatroom: nothing when no seller
  document matches, one \<^verbatim>\<open>ChatroomResponse\<close> otherwise. The loop is related to it in
  \<open>chatroom_loop_eq\<close> below.\<close>

definition seller_entry :: "seller list \<Rightarrow> chatroom \<Rightarrow> ChatroomResponse list" where
  "seller_entry sl chatroom =
     (case find_one (\<lambda>s. s_seller_id s = c_seller_id chatroom) sl of
        Some seller \<Rightarrow>
          [\<lparr>r_chatroom_id = str (c_id chatroom),
            r_seller_name = (case s_name seller of None \<Rightarrow> ''Unknown'' | Some n \<Rightarrow> n),
            r_seller_avatar = (case s_image seller of None \<Rightarrow> '''' | Some i \<Rightarrow> i)\<rparr>]
      | None \<Rightarrow> [])"

definition get_user_chatrooms :: "current_user \<Rightarrow> store \<Rightarrow> outcome" where
  "get_user_chatrooms user db =
     (let uid = u_user_id user;
          rooms = to_list 100 (find_docs (\<lambda>c. c_user_id c = uid) (chatrooms db))
      in if rooms = []
         then (db, Inl (HTTPException 404 ''No chatrooms found for this user''))
         else (db, Inr (ChatroomList ''OK'' (chatroom_loop (sellers db) rooms []))))"

subsection \<open>Sequential executions\<close>

text \<open>A request is one call of a handler together with the environment's inputs to it;
  a sequential execution handles a list of requests one after the other.\<close>

datatype request =
    CreateChatroom string current_user string objectid
  | GetMessages string current_user
  | SendMessage string Message current_user string string
  | GetUserChatrooms current_user

fun handle :: "request \<Rightarrow> store \<Rightarrow> outcome" where
  "handle (CreateChatroom seller_id user now new_id) db =
     create_chatroom seller_id user now new_id db"
| "handle (GetMessages cid user) db = get_messages cid user db"
| "handle (SendMessage cid message user now1 now2) db =
     send_message cid message user now1 now2 db"
| "handle (GetUserChatrooms user) db = get_user_chatrooms user db"

fun run :: "request list \<Rightarrow> store \<Rightarrow> store" where
  "run [] db = db"
| "run (r # rs) db = run rs (fst (handle r db))"

text \<open>The invariant of the data model: no two chatroom documents have the same ordered
  pair \<open>(user_id, seller_id)\<close>.\<close>

definition pair_unique :: "store \<Rightarrow> bool" where
  "pair_unique db \<longleftrightarrow> distinct (map (\<lambda>c. (c_user_id c, c_seller_id c)) (chatrooms db))"

subsection \<open>Example data\<close>

text \<open>The scenario of the specification: buyer \<open>u1\<close>, seller \<open>s1\<close>, one chatroom between
  them, and a third identity \<open>u2\<close> that belongs to no chatroom.\<close>

definition u1 :: current_user where
  "u1 = \<lparr>u_user_id = ''u1'', u_username = ''alice''\<rparr>"

definition u2 :: current_user where
  "u2 = \<lparr>u_user_id = ''u2'', u_username = ''bob''\<rparr>"

definition s1 :: current_user where
  "s1 = \<lparr>u_user_id = ''s1'', u_username = ''shop''\<rparr>"

definition oid1 :: objectid where
  "oid1 = [101, 161, 178, 195, 212, 229, 246, 7, 24, 41, 58, 75]"

definition cid1 :: string where
  "cid1 = ''65a1b2c3d4e5f60718293a4b''"

text \<open>A path parameter of 24 characters that is not 24 hexadecimal digits and that
  \<open>ObjectId\<close> accepts: two of its characters are spaces.\<close>

definition cid_ws :: string where
  "cid_ws = ''65 a1b2c3d4e5f60718293a ''"

definition room1 :: chatroom where
  "room1 = \<lparr>c_id = oid1, c_user_id = ''u1'', c_seller_id = ''s1'',
            c_created_at = ''2024-01-01T00:00:00''\<rparr>"

definition empty_store :: store where
  "empty_store = \<lparr>chatrooms = [], messages = [], sellers = []\<rparr>"

definition store1 :: store where
  "store1 = \<lparr>chatrooms = [room1], messages = [], sellers = []\<rparr>"

text \<open>The store after \<open>u1\<close> has sent "Hi" in \<open>room1\<close>, with a seller record for \<open>s1\<close>
  that has neither \<open>name\<close> nor \<open>image\<close>; and a store with 101 messages in \<open>room1\<close>.\<close>

definition hi_doc :: message_doc where
  "hi_doc = \<lparr>m_chatroom_id = cid1, m_user_id = ''u1'', m_username = ''alice'',
             m_content = ''Hi'', m_timestamp = ''2024-01-02T10:00:00''\<rparr>"

definition reply_doc :: message_doc where
  "reply_doc = \<lparr>m_chatroom_id = cid1, m_user_id = ''s1'', m_username = ''Seller'',
                m_content = ''Thank you for your message. We will get back to you shortly.'',
                m_timestamp = ''2024-01-02T10:00:01''\<rparr>"

definition store2 :: store where
  "store2 = \<lparr>chatrooms = [room1], messages = [hi_doc, reply_doc],
             sellers = [\<lparr>s_seller_id = ''s1'', s_name = None, s_image = None\<rparr>]\<rparr>"

definition store3 :: store where
  "store3 = \<lparr>chatrooms = [room1], messages = replicate 101 hi_doc, sellers = []\<rparr>"

text \<open>A store in which \<open>u1\<close> has three chatrooms, with sellers \<open>s1\<close> (a record without
  \<open>name\<close> and \<open>image\<close>), \<open>s2\<close> (no record) and \<open>s3\<close> (a record with a \<open>name\<close> only), and in
  which \<open>u1\<close> is also the seller of a chatroom of \<open>u2\<close>.\<close>

definition oid2 :: objectid where
  "oid2 = [0, 0, 0, 0, 0, 0, 0, 0, 0, 0, 0, 2]"

definition oid3 :: objectid where
  "oid3 = [0, 0, 0, 0, 0, 0, 0, 0, 0, 0, 0, 3]"

definition oid4 :: objectid where
  "oid4 = [0, 0, 0, 0, 0, 0, 0, 0, 0, 0, 0, 4]"

definition room2 :: chatroom where
  "room2 = \<lparr>c_id = oid2, c_user_id = ''u1'', c_seller_id = ''s2'',
            c_created_at = ''2024-01-03T00:00:00''\<rparr>"

definition room3 :: chatroom where
  "room3 = \<lparr>c_id = oid3, c_user_id = ''u1'', c_seller_id = ''s3'',
            c_created_at = ''2024-01-04T00:00:00''\<rparr>"

definition room4 :: chatroom where
  "room4 = \<lparr>c_id = oid4, c_user_id = ''u2'', c_seller_id = ''u1'',
            c_created_at = ''2024-01-05T00:00:00''\<rparr>"

definition store4 :: store where
  "store4 = \<lparr>chatrooms = [room1, room4, room2, room3], messages = [],
             sellers = [\<lparr>s_seller_id = ''s1'', s_name = None, s_image = None\<rparr>,
                        \<lparr>s_seller_id = ''s3'', s_name = Some ''Shop Three'', s_image = None\<rparr>,
                        \<lparr>s_seller_id = ''u1'', s_name = Some ''Alice'',
                         s_image = Some ''alice.png''\<rparr>]\<rparr>"

text \<open>Requests that follow the creation of a chatroom between \<open>u1\<close> (as user) and \<open>u2\<close>
  (as seller) in \<open>store4\<close>, where only the reverse pairing exists.\<close>

definition oid5 :: objectid where
  "oid5 = [0, 0, 0, 0, 0, 0, 0, 0, 0, 0, 0, 5]"

definition oid6 :: objectid where
  "oid6 = [0, 0, 0, 0, 0, 0, 0, 0, 0, 0, 0, 6]"

definition later_requests :: "request list" where
  "later_requests =
     [SendMessage ''000000000000000000000005''
        \<lparr>user_id = ''u1'', username = ''alice'', content = ''Hi'', timestamp = ''t''\<rparr>
        u1 ''2024-02-01T00:00:01'' ''2024-02-01T00:00:02'',
      GetMessages ''000000000000000000000005'' u2,
      CreateChatroom ''s2'' u2 ''2024-02-01T00:00:03'' oid6,
      GetUserChatrooms u1]"

text \<open>Two request bodies with the same \<open>content\<close> and different other fields, and one
  with empty \<open>content\<close>.\<close>

definition msg_hi :: Message where
  "msg_hi = \<lparr>user_id = ''u1'', username = ''alice'', content = ''Hi'',
             timestamp = ''2024-01-02T10:00:00''\<rparr>"

definition msg_forged :: Message where
  "msg_forged = \<lparr>user_id = ''s1'', username = ''Seller'', content = ''Hi'',
                 timestamp = ''1970-01-01T00:00:00''\<rparr>"

definition msg_empty :: Message where
  "msg_empty = \<lparr>user_id = ''u1'', username = ''alice'', content = [],
                timestamp = ''2024-01-02T10:00:00''\<rparr>"

section \<open>Properties\<close>

subsection \<open>Facts about the driver's operations and ObjectId\<close>

lemma find_one_None_iff: "find_one q coll = None \<longleftrightarrow> (\<forall>d\<in>set coll. \<not> q d)"
proof -
  have "find_one q coll = None \<longleftrightarrow> filter q coll = []"
    by (simp add: find_one_def split: list.splits)
  then show ?thesis by (simp add: filter_empty_conv)
qed

lemma find_one_SomeD: "find_one q coll = Some d \<Longrightarrow> d \<in> set coll \<and> q d"
proof -
  assume "find_one q coll = Some d"
  then obtain rest where "filter q coll = d # rest"
    by (auto simp: find_one_def split: list.splits)
  then have "d \<in> set (filter q coll)" by simp
  then show ?thesis by simp
qed

lemma find_one_Some_ex: "d \<in> set coll \<Longrightarrow> q d \<Longrightarrow> \<exists>d'. find_one q coll = Some d'"
  using find_one_None_iff[of q coll] by (cases "find_one q coll") auto

lemma fromhex_chars:
  "fromhex s = Some bs \<Longrightarrow> \<forall>c\<in>set s. hex_digit c \<noteq> None \<or> isspace c"
proof (induction s arbitrary: bs rule: fromhex.induct)
  case 1
  then show ?case by simp
next
  case (2 a)
  then show ?case by (simp split: if_splits)
next
  case (3 a b cs)
  show ?case
  proof (cases "isspace a")
    case True
    with "3.prems" have "fromhex (b # cs) = Some bs" by simp
    from "3.IH"(1)[OF True this] True show ?thesis by simp
  next
    case False
    with "3.prems" obtain h l rest where hl: "hex_digit a = Some h" "hex_digit b = Some l"
        and rest: "fromhex cs = Some rest"
      by (auto split: option.splits)
    from "3.IH"(2)[OF False hl rest] hl show ?thesis by simp
  qed
qed

lemma ObjectId_accepts:
  assumes "ObjectId s = Inr oid"
  shows "length s = 24" and "\<forall>c\<in>set s. hex_digit c \<noteq> None \<or> isspace c"
proof -
  from assms show len: "length s = 24"
    by (simp add: ObjectId_def split: if_splits)
  with assms have "fromhex s = Some oid"
    by (simp add: ObjectId_def split: option.splits)
  then show "\<forall>c\<in>set s. hex_digit c \<noteq> None \<or> isspace c"
    by (rule fromhex_chars)
qed

lemma ObjectId_cases: "ObjectId s = Inl InvalidId \<or> (\<exists>oid. ObjectId s = Inr oid)"
  by (auto simp: ObjectId_def split: option.splits)

lemma ObjectId_cid1: "ObjectId cid1 = Inr oid1"
  by (simp add: ObjectId_def cid1_def oid1_def hex_digit_def isspace_def)

subsection \<open>The outcomes of the two message handlers, branch by branch\<close>

lemma get_messages_invalid:
  "ObjectId cid = Inl e \<Longrightarrow> get_messages cid user db = (db, Inl e)"
  by (simp add: get_messages_def)

lemma send_message_invalid:
  "ObjectId cid = Inl e \<Longrightarrow> send_message cid message user now1 now2 db = (db, Inl e)"
  by (simp add: send_message_def)

lemma get_messages_no_room:
  "ObjectId cid = Inr oid \<Longrightarrow> find_one (member_query oid (u_user_id user)) (chatrooms db) = None \<Longrightarrow>
   get_messages cid user db =
     (db, Inl (HTTPException 404 ''Chatroom not found or you are not part of this chatroom''))"
  by (simp add: get_messages_def)

lemma send_message_no_room:
  "ObjectId cid = Inr oid \<Longrightarrow> find_one (member_query oid (u_user_id user)) (chatrooms db) = None \<Longrightarrow>
   send_message cid message user now1 now2 db =
     (db, Inl (HTTPException 404 ''Chatroom not found or you are not part of this chatroom''))"
  by (simp add: send_message_def)

lemma get_messages_room:
  "ObjectId cid = Inr oid \<Longrightarrow> find_one (member_query oid (u_user_id user)) (chatrooms db) = Some room \<Longrightarrow>
   get_messages cid user db =
     (if filter (\<lambda>m. m_chatroom_id m = cid) (messages db) = []
      then (db, Inl (HTTPException 404 ''No messages found in this chatroom''))
      else (db, Inr (MessageList
              (map (\<lambda>m. \<lparr>user_id = m_user_id m, username = m_username m,
                         content = m_content m, timestamp = m_timestamp m\<rparr>)
                 (take 100 (filter (\<lambda>m. m_chatroom_id m = cid) (messages db)))))))"
  by (simp add: get_messages_def to_list_def find_docs_def Let_def)

lemma send_message_room:
  "ObjectId cid = Inr oid \<Longrightarrow> find_one (member_query oid (u_user_id user)) (chatrooms db) = Some room \<Longrightarrow>
   send_message cid message user now1 now2 db =
     (db\<lparr>messages := messages db @
          [\<lparr>m_chatroom_id = cid, m_user_id = u_user_id user, m_username = u_username user,
            m_content = content message, m_timestamp = now1\<rparr>,
           \<lparr>m_chatroom_id = cid, m_user_id = c_seller_id room, m_username = ''Seller'',
            m_content = ''Thank you for your message. We will get back to you shortly.'',
            m_timestamp = now2\<rparr>]\<rparr>,
      Inr (MessageSent ''OK'' ''Message sent successfully''))"
  by (simp add: send_message_def insert_one_def Let_def)

lemma find_one_member:
  "room \<in> set (chatrooms db) \<Longrightarrow> c_id room = oid \<Longrightarrow>
   c_user_id room = uid \<or> c_seller_id room = uid \<Longrightarrow>
   \<exists>found. find_one (member_query oid uid) (chatrooms db) = Some found"
  by (rule find_one_Some_ex[of room]) (simp_all add: member_query_def)

subsection \<open>Membership check of the message handlers\<close>

text \<open>
  C1 (as amended). For every \<open>chatroom_id\<close> that \<open>ObjectId\<close> accepts and every requester:
  unless the store holds a chatroom with that \<open>_id\<close> whose \<open>user_id\<close> or \<open>seller_id\<close> is
  the requester, \<open>get_messages\<close> and \<open>send_message\<close> both raise the HTTP 404 exception
  "Chatroom not found or you are not part of this chatroom" and leave the store as it
  was. The hypothesis covers the chatroom that does not exist and the chatroom that
  exists without the requester as a member alike, so the two failures are the same
  error value.
\<close>

theorem message_routes_not_found:
  assumes "ObjectId cid = Inr oid"
    and "\<not> (\<exists>c\<in>set (chatrooms db).
              c_id c = oid \<and> (c_user_id c = u_user_id user \<or> c_seller_id c = u_user_id user))"
  shows "get_messages cid user db =
           (db, Inl (HTTPException 404
                       ''Chatroom not found or you are not part of this chatroom'')) \<and>
         send_message cid message user now1 now2 db =
           (db, Inl (HTTPException 404
                       ''Chatroom not found or you are not part of this chatroom''))"
proof -
  from assms(2) have "find_one (member_query oid (u_user_id user)) (chatrooms db) = None"
    by (simp add: find_one_None_iff member_query_def)
  with assms(1) show ?thesis
    by (simp add: get_messages_no_room send_message_no_room)
qed

theorem message_routes_not_found_witness:
  "get_messages cid1 u2 empty_store =
     (empty_store, Inl (HTTPException 404
                 ''Chatroom not found or you are not part of this chatroom'')) \<and>
   get_messages cid1 u2 store1 =
     (store1, Inl (HTTPException 404
                 ''Chatroom not found or you are not part of this chatroom'')) \<and>
   send_message cid1 msg_hi
       u2 ''t1'' ''t2'' store1 =
     (store1, Inl (HTTPException 404
                 ''Chatroom not found or you are not part of this chatroom''))"
  using message_routes_not_found [of cid1 oid1 empty_store u2]
        message_routes_not_found [of cid1 oid1 store1 u2]
  by (simp add: ObjectId_cid1 empty_store_def store1_def room1_def u2_def)

text \<open>
  The claim as first stated ranges over every \<open>chatroom_id\<close>. For the path parameter
  \<open>xyz\<close> no chatroom with that id exists (the store is empty), yet neither handler
  raises the 404 exception: both raise \<open>InvalidId\<close>.
\<close>

theorem message_routes_not_found_counterexample:
  "chatrooms empty_store = [] \<and>
   get_messages ''xyz'' u2 empty_store = (empty_store, Inl InvalidId) \<and>
   send_message ''xyz'' msg_hi
       u2 ''t1'' ''t2'' empty_store = (empty_store, Inl InvalidId) \<and>
   InvalidId \<noteq> HTTPException 404 ''Chatroom not found or you are not part of this chatroom''"
  by (simp add: get_messages_def send_message_def ObjectId_def empty_store_def)

subsection \<open>Malformed chatroom ids\<close>

text \<open>
  The claim as first stated takes "not 24 hexadecimal characters" as malformed. The
  path parameter \<open>cid_ws\<close> has 24 characters of which two are spaces, so it is not 24
  hexadecimal digits; \<open>ObjectId\<close> accepts it, both handlers go on to the lookup, and both
  raise the HTTP 404 exception of the membership check, not \<open>InvalidId\<close>.
\<close>

theorem malformed_chatroom_id_counterexample:
  "length cid_ws = 24 \<and> CHR 0x20 \<in> set cid_ws \<and> hex_digit (CHR 0x20) = None \<and>
   get_messages cid_ws u1 store1 =
     (store1, Inl (HTTPException 404
                     ''Chatroom not found or you are not part of this chatroom'')) \<and>
   send_message cid_ws msg_hi u1 ''t1'' ''t2'' store1 =
     (store1, Inl (HTTPException 404
                     ''Chatroom not found or you are not part of this chatroom''))"
  by (simp add: get_messages_def send_message_def ObjectId_def cid_ws_def hex_digit_def
        isspace_def find_one_def member_query_def store1_def room1_def oid1_def u1_def)

text \<open>
  C10 (as amended). For every \<open>chatroom_id\<close> that \<open>ObjectId\<close> rejects, \<open>get_messages\<close> and
  \<open>send_message\<close> raise \<open>InvalidId\<close>, the error of the conversion, whatever the store holds
  (so before any lookup in it), and leave the store as it was. \<open>ObjectId\<close> rejects every
  string whose length is not 24 and every string with a character that is neither a
  hexadecimal digit nor ASCII whitespace. Conversely, whenever one of the two handlers
  raises an \<open>HTTPException\<close> (the 404 of the membership check or of the empty message
  list), \<open>ObjectId\<close> has accepted the \<open>chatroom_id\<close>: it has 24 characters, each a
  hexadecimal digit or ASCII whitespace.
\<close>

theorem malformed_chatroom_id:
  "(ObjectId cid = Inl e \<longrightarrow>
      e = InvalidId \<and>
      get_messages cid user db = (db, Inl InvalidId) \<and>
      send_message cid message user now1 now2 db = (db, Inl InvalidId)) \<and>
   (length cid \<noteq> 24 \<or> (\<exists>c\<in>set cid. hex_digit c = None \<and> \<not> isspace c) \<longrightarrow>
      ObjectId cid = Inl InvalidId) \<and>
   (snd (get_messages cid user db) = Inl (HTTPException st detail) \<or>
    snd (send_message cid message user now1 now2 db) = Inl (HTTPException st detail) \<longrightarrow>
      (\<exists>oid. ObjectId cid = Inr oid) \<and> length cid = 24 \<and>
      (\<forall>c\<in>set cid. hex_digit c \<noteq> None \<or> isspace c))"
proof (intro conjI impI)
  assume rej: "ObjectId cid = Inl e"
  with ObjectId_cases[of cid] show e: "e = InvalidId" by auto
  from rej e show "get_messages cid user db = (db, Inl InvalidId)"
    and "send_message cid message user now1 now2 db = (db, Inl InvalidId)"
    by (simp_all add: get_messages_invalid send_message_invalid)
next
  assume bad: "length cid \<noteq> 24 \<or> (\<exists>c\<in>set cid. hex_digit c = None \<and> \<not> isspace c)"
  have "\<not> (\<exists>oid. ObjectId cid = Inr oid)"
  proof
    assume "\<exists>oid. ObjectId cid = Inr oid"
    then obtain oid where "ObjectId cid = Inr oid" ..
    from ObjectId_accepts[OF this] bad show False by blast
  qed
  with ObjectId_cases[of cid] show "ObjectId cid = Inl InvalidId" by blast
next
  assume nf: "snd (get_messages cid user db) = Inl (HTTPException st detail) \<or>
              snd (send_message cid message user now1 now2 db) = Inl (HTTPException st detail)"
  have "ObjectId cid \<noteq> Inl InvalidId"
  proof
    assume "ObjectId cid = Inl InvalidId"
    then have "get_messages cid user db = (db, Inl InvalidId)"
      and "send_message cid message user now1 now2 db = (db, Inl InvalidId)"
      by (simp_all add: get_messages_invalid send_message_invalid)
    with nf show False by simp
  qed
  with ObjectId_cases[of cid] obtain oid where oid: "ObjectId cid = Inr oid" by blast
  then show "\<exists>oid. ObjectId cid = Inr oid" ..
  from ObjectId_accepts[OF oid]
  show "length cid = 24" and "\<forall>c\<in>set cid. hex_digit c \<noteq> None \<or> isspace c" .
qed

theorem malformed_chatroom_id_witness:
  "get_messages ''xyz'' u1 store1 = (store1, Inl InvalidId) \<and>
   send_message ''xyz'' msg_hi u1 ''t1'' ''t2'' store1 = (store1, Inl InvalidId) \<and>
   get_messages ''65a1b2c3d4e5f60718293a4z'' u1 store1 = (store1, Inl InvalidId) \<and>
   send_message ''65a1b2c3d4e5f60718293a4z'' msg_hi u1 ''t1'' ''t2'' store1 =
     (store1, Inl InvalidId) \<and>
   snd (get_messages cid1 u2 store1) =
      Inl (HTTPException 404 ''Chatroom not found or you are not part of this chatroom'') \<and>
   (\<exists>oid. ObjectId cid1 = Inr oid) \<and> length cid1 = 24 \<and>
   snd (get_messages cid_ws u1 store1) =
      Inl (HTTPException 404 ''Chatroom not found or you are not part of this chatroom'') \<and>
   (\<exists>oid. ObjectId cid_ws = Inr oid) \<and> length cid_ws = 24"
proof -
  have a: "length ''xyz'' \<noteq> 24 \<or> (\<exists>c\<in>set ''xyz''. hex_digit c = None \<and> \<not> isspace c)"
    by simp
  have b: "length ''65a1b2c3d4e5f60718293a4z'' \<noteq> 24 \<or>
           (\<exists>c\<in>set ''65a1b2c3d4e5f60718293a4z''. hex_digit c = None \<and> \<not> isspace c)"
    by (simp add: hex_digit_def isspace_def)
  have c: "snd (get_messages cid1 u2 store1) =
      Inl (HTTPException 404 ''Chatroom not found or you are not part of this chatroom'')"
    by (simp add: get_messages_def ObjectId_cid1 find_one_def member_query_def store1_def
          room1_def u2_def)
  have d: "snd (get_messages cid_ws u1 store1) =
      Inl (HTTPException 404 ''Chatroom not found or you are not part of this chatroom'')"
    by (simp add: get_messages_def ObjectId_def cid_ws_def hex_digit_def isspace_def
          find_one_def member_query_def store1_def room1_def oid1_def u1_def)
  note i1 = malformed_chatroom_id [where cid = "''xyz''" and user = u1 and db = store1 and
      message = msg_hi and ?now1.0 = "''t1''" and ?now2.0 = "''t2''" and e = InvalidId]
  note i2 = malformed_chatroom_id [where cid = "''65a1b2c3d4e5f60718293a4z''" and user = u1
      and db = store1 and message = msg_hi and ?now1.0 = "''t1''" and ?now2.0 = "''t2''"
      and e = InvalidId]
  note i3 = malformed_chatroom_id [where cid = cid1 and user = u2 and db = store1 and st = 404
      and detail = "''Chatroom not found or you are not part of this chatroom''"]
  note i4 = malformed_chatroom_id [where cid = cid_ws and user = u1 and db = store1
      and st = 404
      and detail = "''Chatroom not found or you are not part of this chatroom''"]
  from a i1 have 1: "get_messages ''xyz'' u1 store1 = (store1, Inl InvalidId)"
    "send_message ''xyz'' msg_hi u1 ''t1'' ''t2'' store1 = (store1, Inl InvalidId)"
    by blast+
  from b i2 have 2: "get_messages ''65a1b2c3d4e5f60718293a4z'' u1 store1 =
      (store1, Inl InvalidId)"
    "send_message ''65a1b2c3d4e5f60718293a4z'' msg_hi u1 ''t1'' ''t2'' store1 =
      (store1, Inl InvalidId)"
    by blast+
  from c i3 have 3: "\<exists>oid. ObjectId cid1 = Inr oid" "length cid1 = 24" by blast+
  from d i4 have 4: "\<exists>oid. ObjectId cid_ws = Inr oid" "length cid_ws = 24" by blast+
  from 1 2 3 4 c d show ?thesis by blast
qed

subsection \<open>Creating a chatroom with oneself\<close>

text \<open>
  C4. For every requester and every \<open>seller_id\<close>: when the requester's \<open>user_id\<close> equals
  \<open>seller_id\<close>, \<open>create_chatroom\<close> raises the HTTP 400 exception "User cannot create a
  chatroom with themselves." and the store it leaves is the store it was given.
\<close>

theorem create_chatroom_self:
  assumes "u_user_id user = seller_id"
  shows "create_chatroom seller_id user now new_id db =
           (db, Inl (HTTPException 400 ''User cannot create a chatroom with themselves.''))"
  using assms by (simp add: create_chatroom_def)

theorem create_chatroom_self_witness:
  "u_user_id s1 = ''s1'' \<and>
   create_chatroom ''s1'' s1 ''2024-02-01T00:00:00'' oid2 store2 =
     (store2, Inl (HTTPException 400 ''User cannot create a chatroom with themselves.''))"
proof -
  have self: "u_user_id s1 = ''s1''" by (simp add: s1_def)
  from create_chatroom_self [OF self, of "''2024-02-01T00:00:00''" oid2 store2] self
  show ?thesis by simp
qed

subsection \<open>Sending a message\<close>

text \<open>
  C2. \<open>send_message\<close> succeeds whenever the store holds a chatroom whose \<open>_id\<close> is the
  ObjectId of \<open>chatroom_id\<close> and whose \<open>user_id\<close> or \<open>seller_id\<close> is the requester,
  whatever the content. Every successful call returns the store with exactly two
  documents appended to \<open>messages\<close>, in this order: the requester's message (the given
  \<open>chatroom_id\<close>, the requester's \<open>user_id\<close> and \<open>username\<close>, the body's \<open>content\<close>, the
  first clock reading), then the reply (same \<open>chatroom_id\<close>, the \<open>seller_id\<close> of such a
  chatroom, username "Seller", the fixed text, the second clock reading). The
  collections \<open>chatrooms\<close> and \<open>sellers\<close> and the earlier messages are as before.
\<close>

theorem send_message_inserts_pair:
  "((\<exists>room\<in>set (chatrooms db). ObjectId cid = Inr (c_id room) \<and>
        (c_user_id room = u_user_id user \<or> c_seller_id room = u_user_id user)) \<longrightarrow>
      (\<exists>r. snd (send_message cid message user now1 now2 db) = Inr r)) \<and>
   (send_message cid message user now1 now2 db = (db', Inr r) \<longrightarrow>
      r = MessageSent ''OK'' ''Message sent successfully'' \<and>
      (\<exists>room\<in>set (chatrooms db). ObjectId cid = Inr (c_id room) \<and>
         (c_user_id room = u_user_id user \<or> c_seller_id room = u_user_id user) \<and>
         db' = db\<lparr>messages := messages db @
                  [\<lparr>m_chatroom_id = cid, m_user_id = u_user_id user,
                    m_username = u_username user, m_content = content message,
                    m_timestamp = now1\<rparr>,
                   \<lparr>m_chatroom_id = cid, m_user_id = c_seller_id room,
                    m_username = ''Seller'',
                    m_content =
                      ''Thank you for your message. We will get back to you shortly.'',
                    m_timestamp = now2\<rparr>]\<rparr>))"
proof (intro conjI impI)
  assume "\<exists>room\<in>set (chatrooms db). ObjectId cid = Inr (c_id room) \<and>
        (c_user_id room = u_user_id user \<or> c_seller_id room = u_user_id user)"
  then obtain room where room: "room \<in> set (chatrooms db)" "ObjectId cid = Inr (c_id room)"
      "c_user_id room = u_user_id user \<or> c_seller_id room = u_user_id user"
    by blast
  from find_one_member[OF room(1) refl room(3)] obtain found
    where "find_one (member_query (c_id room) (u_user_id user)) (chatrooms db) = Some found"
    by blast
  from send_message_room[OF room(2) this]
  show "\<exists>r. snd (send_message cid message user now1 now2 db) = Inr r"
    by simp
next
  assume ok: "send_message cid message user now1 now2 db = (db', Inr r)"
  from ObjectId_cases[of cid] obtain oid where oid: "ObjectId cid = Inr oid"
    using ok send_message_invalid[of cid InvalidId message user now1 now2 db] by auto
  obtain found where found:
    "find_one (member_query oid (u_user_id user)) (chatrooms db) = Some found"
    using ok send_message_no_room[OF oid, of user db message now1 now2]
    by (cases "find_one (member_query oid (u_user_id user)) (chatrooms db)") auto
  from find_one_SomeD[OF found]
  have mem: "found \<in> set (chatrooms db)" "c_id found = oid"
    "c_user_id found = u_user_id user \<or> c_seller_id found = u_user_id user"
    by (simp_all add: member_query_def)
  from ok send_message_room[OF oid found, of message now1 now2]
  have eq: "r = MessageSent ''OK'' ''Message sent successfully''"
    "db' = db\<lparr>messages := messages db @
                  [\<lparr>m_chatroom_id = cid, m_user_id = u_user_id user,
                    m_username = u_username user, m_content = content message,
                    m_timestamp = now1\<rparr>,
                   \<lparr>m_chatroom_id = cid, m_user_id = c_seller_id found,
                    m_username = ''Seller'',
                    m_content =
                      ''Thank you for your message. We will get back to you shortly.'',
                    m_timestamp = now2\<rparr>]\<rparr>"
    by simp_all
  from eq(1) show "r = MessageSent ''OK'' ''Message sent successfully''" .
  from mem oid eq(2)
  show "\<exists>room\<in>set (chatrooms db). ObjectId cid = Inr (c_id room) \<and>
         (c_user_id room = u_user_id user \<or> c_seller_id room = u_user_id user) \<and>
         db' = db\<lparr>messages := messages db @
                  [\<lparr>m_chatroom_id = cid, m_user_id = u_user_id user,
                    m_username = u_username user, m_content = content message,
                    m_timestamp = now1\<rparr>,
                   \<lparr>m_chatroom_id = cid, m_user_id = c_seller_id room,
                    m_username = ''Seller'',
                    m_content =
                      ''Thank you for your message. We will get back to you shortly.'',
                    m_timestamp = now2\<rparr>]\<rparr>"
    by blast
qed

theorem send_message_inserts_pair_witness:
  "(\<exists>r. snd (send_message cid1 msg_empty u1 ''t1'' ''t2'' store1) = Inr r) \<and>
   send_message cid1 msg_empty u1 ''t1'' ''t2'' store1 =
     (\<lparr>chatrooms = [room1],
       messages =
         [\<lparr>m_chatroom_id = cid1, m_user_id = ''u1'', m_username = ''alice'',
           m_content = [], m_timestamp = ''t1''\<rparr>,
          \<lparr>m_chatroom_id = cid1, m_user_id = ''s1'', m_username = ''Seller'',
           m_content = ''Thank you for your message. We will get back to you shortly.'',
           m_timestamp = ''t2''\<rparr>],
       sellers = []\<rparr>,
      Inr (MessageSent ''OK'' ''Message sent successfully''))"
proof -
  have mem: "\<exists>room\<in>set (chatrooms store1). ObjectId cid1 = Inr (c_id room) \<and>
        (c_user_id room = u_user_id u1 \<or> c_seller_id room = u_user_id u1)"
    by (simp add: store1_def room1_def u1_def ObjectId_cid1)
  have run: "send_message cid1 msg_empty u1 ''t1'' ''t2'' store1 =
     (\<lparr>chatrooms = [room1],
       messages =
         [\<lparr>m_chatroom_id = cid1, m_user_id = ''u1'', m_username = ''alice'',
           m_content = [], m_timestamp = ''t1''\<rparr>,
          \<lparr>m_chatroom_id = cid1, m_user_id = ''s1'', m_username = ''Seller'',
           m_content = ''Thank you for your message. We will get back to you shortly.'',
           m_timestamp = ''t2''\<rparr>],
       sellers = []\<rparr>,
      Inr (MessageSent ''OK'' ''Message sent successfully''))"
    by (simp add: send_message_def ObjectId_cid1 find_one_def member_query_def insert_one_def
          store1_def room1_def u1_def msg_empty_def)
  from mem run
    send_message_inserts_pair [where cid = cid1 and message = msg_empty and user = u1
      and ?now1.0 = "''t1''" and ?now2.0 = "''t2''" and db = store1]
  show ?thesis by blast
qed

subsection \<open>The body's identity fields\<close>

text \<open>
  C9. Two \<open>send_message\<close> requests whose bodies have the same \<open>content\<close> and that agree
  in everything outside the body (chatroom id, authenticated identity, clock, store)
  yield the same store and the same response, whatever the bodies' \<open>user_id\<close>,
  \<open>username\<close> and \<open>timestamp\<close> are. When the call succeeds, the document appended first
  has the authenticated identity's \<open>user_id\<close> and \<open>username\<close> and the first clock
  reading as its \<open>timestamp\<close>.
\<close>

theorem send_message_ignores_body_identity:
  fixes m1 m2 :: Message
  assumes "content m1 = content m2"
  shows "send_message cid m1 user now1 now2 db = send_message cid m2 user now1 now2 db \<and>
         (\<forall>db' r. send_message cid m1 user now1 now2 db = (db', Inr r) \<longrightarrow>
            messages db' ! length (messages db) =
              \<lparr>m_chatroom_id = cid, m_user_id = u_user_id user, m_username = u_username user,
               m_content = content m1, m_timestamp = now1\<rparr>)"
proof
  from assms show "send_message cid m1 user now1 now2 db = send_message cid m2 user now1 now2 db"
    by (simp add: send_message_def Let_def split: sum.splits option.splits)
next
  show "\<forall>db' r. send_message cid m1 user now1 now2 db = (db', Inr r) \<longrightarrow>
            messages db' ! length (messages db) =
              \<lparr>m_chatroom_id = cid, m_user_id = u_user_id user, m_username = u_username user,
               m_content = content m1, m_timestamp = now1\<rparr>"
  proof (intro allI impI)
    fix db' r
    assume ok: "send_message cid m1 user now1 now2 db = (db', Inr r)"
    from ObjectId_cases[of cid] obtain oid where oid: "ObjectId cid = Inr oid"
      using ok send_message_invalid[of cid InvalidId m1 user now1 now2 db] by auto
    obtain found where found:
      "find_one (member_query oid (u_user_id user)) (chatrooms db) = Some found"
      using ok send_message_no_room[OF oid, of user db m1 now1 now2]
      by (cases "find_one (member_query oid (u_user_id user)) (chatrooms db)") auto
    from ok send_message_room[OF oid found, of m1 now1 now2]
    show "messages db' ! length (messages db) =
              \<lparr>m_chatroom_id = cid, m_user_id = u_user_id user, m_username = u_username user,
               m_content = content m1, m_timestamp = now1\<rparr>"
      by (auto simp: nth_append)
  qed
qed

theorem send_message_ignores_body_identity_witness:
  "content msg_hi = content msg_forged \<and> msg_hi \<noteq> msg_forged \<and>
   send_message cid1 msg_hi u1 ''t1'' ''t2'' store1 =
     send_message cid1 msg_forged u1 ''t1'' ''t2'' store1 \<and>
   messages (fst (send_message cid1 msg_forged u1 ''t1'' ''t2'' store1)) ! 0 =
     \<lparr>m_chatroom_id = cid1, m_user_id = ''u1'', m_username = ''alice'',
      m_content = ''Hi'', m_timestamp = ''t1''\<rparr>"
proof -
  have c: "content msg_hi = content msg_forged" and d: "msg_hi \<noteq> msg_forged"
    by (simp_all add: msg_hi_def msg_forged_def)
  have ok: "send_message cid1 msg_hi u1 ''t1'' ''t2'' store1 =
     (fst (send_message cid1 msg_hi u1 ''t1'' ''t2'' store1),
      Inr (MessageSent ''OK'' ''Message sent successfully''))"
    by (simp add: send_message_def ObjectId_cid1 find_one_def member_query_def
          store1_def room1_def u1_def)
  note inst = send_message_ignores_body_identity [OF c, of cid1 u1 "''t1''" "''t2''" store1]
  from inst have same: "send_message cid1 msg_hi u1 ''t1'' ''t2'' store1 =
     send_message cid1 msg_forged u1 ''t1'' ''t2'' store1" by blast
  from inst ok have "messages (fst (send_message cid1 msg_hi u1 ''t1'' ''t2'' store1)) !
      length (messages store1) =
     \<lparr>m_chatroom_id = cid1, m_user_id = u_user_id u1, m_username = u_username u1,
      m_content = content msg_hi, m_timestamp = ''t1''\<rparr>"
    by blast
  with same c d show ?thesis
    by (simp add: store1_def u1_def msg_hi_def)
qed

subsection \<open>Listing the messages of a chatroom\<close>

text \<open>
  C5. Let \<open>chatroom_id\<close> denote a chatroom of the store of which the requester is a
  member. If no message document has this \<open>chatroom_id\<close>, \<open>get_messages\<close> raises the
  HTTP 404 exception "No messages found in this chatroom" and returns no list.
  Otherwise it returns a non-empty list of at most 100 entries: the first 100 message
  documents with this \<open>chatroom_id\<close>, in store order, each reduced to the four fields
  \<open>user_id\<close>, \<open>username\<close>, \<open>content\<close>, \<open>timestamp\<close>.
\<close>

theorem get_messages_listing:
  assumes "ObjectId cid = Inr oid"
    and "room \<in> set (chatrooms db)"
    and "c_id room = oid"
    and "c_user_id room = u_user_id user \<or> c_seller_id room = u_user_id user"
  shows "(filter (\<lambda>m. m_chatroom_id m = cid) (messages db) = [] \<longrightarrow>
            get_messages cid user db =
              (db, Inl (HTTPException 404 ''No messages found in this chatroom''))) \<and>
         (filter (\<lambda>m. m_chatroom_id m = cid) (messages db) \<noteq> [] \<longrightarrow>
            (\<exists>ms. get_messages cid user db = (db, Inr (MessageList ms)) \<and>
                  ms \<noteq> [] \<and> length ms \<le> 100 \<and>
                  ms = map (\<lambda>m. \<lparr>user_id = m_user_id m, username = m_username m,
                                  content = m_content m, timestamp = m_timestamp m\<rparr>)
                         (take 100 (filter (\<lambda>m. m_chatroom_id m = cid) (messages db)))))"
proof -
  from find_one_member[OF assms(2,3,4)] obtain found
    where "find_one (member_query oid (u_user_id user)) (chatrooms db) = Some found"
    by blast
  note out = get_messages_room[OF assms(1) this]
  show ?thesis
  proof (intro conjI impI)
    assume "filter (\<lambda>m. m_chatroom_id m = cid) (messages db) = []"
    with out show "get_messages cid user db =
              (db, Inl (HTTPException 404 ''No messages found in this chatroom''))"
      by simp
  next
    assume ne: "filter (\<lambda>m. m_chatroom_id m = cid) (messages db) \<noteq> []"
    then have "take 100 (filter (\<lambda>m. m_chatroom_id m = cid) (messages db)) \<noteq> []"
      by (cases "filter (\<lambda>m. m_chatroom_id m = cid) (messages db)") simp_all
    with out ne show "\<exists>ms. get_messages cid user db = (db, Inr (MessageList ms)) \<and>
                  ms \<noteq> [] \<and> length ms \<le> 100 \<and>
                  ms = map (\<lambda>m. \<lparr>user_id = m_user_id m, username = m_username m,
                                  content = m_content m, timestamp = m_timestamp m\<rparr>)
                         (take 100 (filter (\<lambda>m. m_chatroom_id m = cid) (messages db)))"
      by simp
  qed
qed

theorem get_messages_listing_witness:
  "get_messages cid1 u1 store1 =
     (store1, Inl (HTTPException 404 ''No messages found in this chatroom'')) \<and>
   get_messages cid1 s1 store2 =
     (store2, Inr (MessageList
        [\<lparr>user_id = ''u1'', username = ''alice'', content = ''Hi'',
          timestamp = ''2024-01-02T10:00:00''\<rparr>,
         \<lparr>user_id = ''s1'', username = ''Seller'',
          content = ''Thank you for your message. We will get back to you shortly.'',
          timestamp = ''2024-01-02T10:00:01''\<rparr>])) \<and>
   get_messages cid1 u1 store3 =
     (store3, Inr (MessageList
        (replicate 100 \<lparr>user_id = ''u1'', username = ''alice'', content = ''Hi'',
          timestamp = ''2024-01-02T10:00:00''\<rparr>)))"
proof -
  have a: "filter (\<lambda>m. m_chatroom_id m = cid1) (messages store1) = []"
    by (simp add: store1_def)
  have b: "filter (\<lambda>m. m_chatroom_id m = cid1) (messages store2) = [hi_doc, reply_doc]"
    by (simp add: store2_def hi_doc_def reply_doc_def)
  have c: "filter (\<lambda>m. m_chatroom_id m = cid1) (messages store3) = replicate 101 hi_doc"
    by (simp add: store3_def hi_doc_def)
  have r1: "room1 \<in> set (chatrooms store1)" "room1 \<in> set (chatrooms store2)"
    "room1 \<in> set (chatrooms store3)" "c_id room1 = oid1"
    by (simp_all add: store1_def store2_def store3_def room1_def)
  have mu: "c_user_id room1 = u_user_id u1 \<or> c_seller_id room1 = u_user_id u1"
    and ms: "c_user_id room1 = u_user_id s1 \<or> c_seller_id room1 = u_user_id s1"
    by (simp_all add: room1_def u1_def s1_def)
  from get_messages_listing[OF ObjectId_cid1 r1(1) r1(4) mu] a
  have 1: "get_messages cid1 u1 store1 =
     (store1, Inl (HTTPException 404 ''No messages found in this chatroom''))"
    by simp
  from get_messages_listing[OF ObjectId_cid1 r1(2) r1(4) ms] b
  have 2: "get_messages cid1 s1 store2 =
     (store2, Inr (MessageList
        [\<lparr>user_id = ''u1'', username = ''alice'', content = ''Hi'',
          timestamp = ''2024-01-02T10:00:00''\<rparr>,
         \<lparr>user_id = ''s1'', username = ''Seller'',
          content = ''Thank you for your message. We will get back to you shortly.'',
          timestamp = ''2024-01-02T10:00:01''\<rparr>]))"
    by (simp add: hi_doc_def reply_doc_def)
  from get_messages_listing[OF ObjectId_cid1 r1(3) r1(4) mu] c
  have 3: "get_messages cid1 u1 store3 =
     (store3, Inr (MessageList
        (replicate 100 \<lparr>user_id = ''u1'', username = ''alice'', content = ''Hi'',
          timestamp = ''2024-01-02T10:00:00''\<rparr>)))"
    by (simp add: hi_doc_def)
  from 1 2 3 show ?thesis by blast
qed

subsection \<open>Listing twice\<close>

text \<open>
  C8. For every store, \<open>chatroom_id\<close> and requester, \<open>get_messages\<close> returns the store
  it was given, and calling it again on the store it returned yields the same outcome
  (the same list of messages, or the same error).
\<close>

theorem get_messages_repeat:
  "fst (get_messages cid user db) = db \<and>
   get_messages cid user (fst (get_messages cid user db)) = get_messages cid user db"
proof -
  have "fst (get_messages cid user db) = db"
    by (simp add: get_messages_def Let_def split: sum.splits option.splits)
  then show ?thesis by simp
qed

theorem get_messages_repeat_witness:
  "fst (get_messages cid1 u1 store2) = store2 \<and>
   get_messages cid1 u1 (fst (get_messages cid1 u1 store2)) = get_messages cid1 u1 store2 \<and>
   snd (get_messages cid1 u1 store2) =
     Inr (MessageList
        [\<lparr>user_id = ''u1'', username = ''alice'', content = ''Hi'',
          timestamp = ''2024-01-02T10:00:00''\<rparr>,
         \<lparr>user_id = ''s1'', username = ''Seller'',
          content = ''Thank you for your message. We will get back to you shortly.'',
          timestamp = ''2024-01-02T10:00:01''\<rparr>])"
proof -
  have "snd (get_messages cid1 u1 store2) =
     Inr (MessageList
        [\<lparr>user_id = ''u1'', username = ''alice'', content = ''Hi'',
          timestamp = ''2024-01-02T10:00:00''\<rparr>,
         \<lparr>user_id = ''s1'', username = ''Seller'',
          content = ''Thank you for your message. We will get back to you shortly.'',
          timestamp = ''2024-01-02T10:00:01''\<rparr>])"
    by (simp add: get_messages_def ObjectId_cid1 find_one_def member_query_def to_list_def
          find_docs_def store2_def room1_def u1_def hi_doc_def reply_doc_def)
  with get_messages_repeat[of cid1 u1 store2] show ?thesis by simp
qed

subsection \<open>The loop of the chatroom listing\<close>

lemma chatroom_loop_eq:
  "chatroom_loop sl rooms acc = acc @ concat (map (seller_entry sl) rooms)"
  by (induction rooms arbitrary: acc) (simp_all add: seller_entry_def split: option.splits)

lemma seller_entry_length:
  "length (seller_entry sl c) = (if \<exists>s\<in>set sl. s_seller_id s = c_seller_id c then 1 else 0)"
  using find_one_None_iff[of "\<lambda>s. s_seller_id s = c_seller_id c" sl]
  by (auto simp: seller_entry_def split: option.splits)

lemma entries_length:
  "length (concat (map (seller_entry sl) rooms)) =
     length (filter (\<lambda>c. \<exists>s\<in>set sl. s_seller_id s = c_seller_id c) rooms)"
  by (induction rooms) (simp_all add: seller_entry_length)

lemma seller_entry_id:
  "r \<in> set (seller_entry sl c) \<Longrightarrow> r_chatroom_id r = str (c_id c)"
  by (auto simp: seller_entry_def split: option.splits)

lemma entries_origin:
  assumes "r \<in> set (concat (map (seller_entry sl) rooms))"
  shows "\<exists>c\<in>set rooms. r_chatroom_id r = str (c_id c)"
proof -
  from assms obtain c where "c \<in> set rooms" "r \<in> set (seller_entry sl c)"
    by auto
  then show ?thesis using seller_entry_id by blast
qed

lemma get_user_chatrooms_none:
  "take 100 (filter (\<lambda>c. c_user_id c = u_user_id user) (chatrooms db)) = [] \<Longrightarrow>
   get_user_chatrooms user db =
     (db, Inl (HTTPException 404 ''No chatrooms found for this user''))"
  by (simp add: get_user_chatrooms_def to_list_def find_docs_def)

lemma get_user_chatrooms_some:
  "take 100 (filter (\<lambda>c. c_user_id c = u_user_id user) (chatrooms db)) \<noteq> [] \<Longrightarrow>
   get_user_chatrooms user db =
     (db, Inr (ChatroomList ''OK''
        (concat (map (seller_entry (sellers db))
           (take 100 (filter (\<lambda>c. c_user_id c = u_user_id user) (chatrooms db)))))))"
  by (simp add: get_user_chatrooms_def to_list_def find_docs_def Let_def chatroom_loop_eq)

subsection \<open>Chatrooms whose seller has no record\<close>

text \<open>
  C6. When the requester has at least one chatroom, \<open>get_user_chatrooms\<close> answers "OK"
  with a list built from the fetched chatrooms in order: a chatroom whose \<open>seller_id\<close>
  matches no seller document contributes nothing (no error, no placeholder entry), and
  a chatroom whose seller document is found contributes exactly one entry with the
  chatroom's id, the seller's \<open>name\<close> or "Unknown" when the document has none, and the
  seller's \<open>image\<close> or the empty string when the document has none. So the list has as
  many entries as there are fetched chatrooms with a seller document.
\<close>

theorem get_user_chatrooms_sellers:
  assumes "rooms = take 100 (filter (\<lambda>c. c_user_id c = u_user_id user) (chatrooms db))"
    and "rooms \<noteq> []"
  shows "\<exists>rs. get_user_chatrooms user db = (db, Inr (ChatroomList ''OK'' rs)) \<and>
           rs = concat (map (\<lambda>c.
                  case find_one (\<lambda>s. s_seller_id s = c_seller_id c) (sellers db) of
                    None \<Rightarrow> []
                  | Some seller \<Rightarrow>
                      [\<lparr>r_chatroom_id = str (c_id c),
                        r_seller_name =
                          (case s_name seller of None \<Rightarrow> ''Unknown'' | Some n \<Rightarrow> n),
                        r_seller_avatar =
                          (case s_image seller of None \<Rightarrow> [] | Some i \<Rightarrow> i)\<rparr>]) rooms) \<and>
           length rs =
             length (filter (\<lambda>c. \<exists>s\<in>set (sellers db). s_seller_id s = c_seller_id c) rooms)"
proof -
  have unfold: "seller_entry (sellers db) = (\<lambda>c.
                  case find_one (\<lambda>s. s_seller_id s = c_seller_id c) (sellers db) of
                    None \<Rightarrow> []
                  | Some seller \<Rightarrow>
                      [\<lparr>r_chatroom_id = str (c_id c),
                        r_seller_name =
                          (case s_name seller of None \<Rightarrow> ''Unknown'' | Some n \<Rightarrow> n),
                        r_seller_avatar =
                          (case s_image seller of None \<Rightarrow> [] | Some i \<Rightarrow> i)\<rparr>])"
    by (rule ext) (simp add: seller_entry_def)
  from assms have "get_user_chatrooms user db =
     (db, Inr (ChatroomList ''OK'' (concat (map (seller_entry (sellers db)) rooms))))"
    by (simp add: get_user_chatrooms_some)
  moreover have "length (concat (map (seller_entry (sellers db)) rooms)) =
     length (filter (\<lambda>c. \<exists>s\<in>set (sellers db). s_seller_id s = c_seller_id c) rooms)"
    by (rule entries_length)
  ultimately show ?thesis
    unfolding unfold by blast
qed

theorem get_user_chatrooms_sellers_witness:
  "take 100 (filter (\<lambda>c. c_user_id c = u_user_id u1) (chatrooms store4)) =
     [room1, room2, room3] \<and>
   get_user_chatrooms u1 store4 =
     (store4, Inr (ChatroomList ''OK''
        [\<lparr>r_chatroom_id = ''65a1b2c3d4e5f60718293a4b'', r_seller_name = ''Unknown'',
          r_seller_avatar = []\<rparr>,
         \<lparr>r_chatroom_id = ''000000000000000000000003'', r_seller_name = ''Shop Three'',
          r_seller_avatar = []\<rparr>]))"
proof -
  have rooms: "[room1, room2, room3] =
      take 100 (filter (\<lambda>c. c_user_id c = u_user_id u1) (chatrooms store4))"
    by (simp add: store4_def room1_def room2_def room3_def room4_def u1_def)
  have ne: "[room1, room2, room3] \<noteq> []" by simp
  from get_user_chatrooms_sellers[OF rooms ne] rooms show ?thesis
    by (simp add: find_one_def store4_def room1_def room2_def room3_def str_def hexlify_def
          oid1_def oid3_def)
qed

subsection \<open>Whose chatrooms are listed\<close>

text \<open>
  C7. \<open>get_user_chatrooms\<close> raises the HTTP 404 exception "No chatrooms found for this
  user" when no chatroom has the requester as \<open>user_id\<close>. When it answers with a list,
  the list has at most 100 entries and every entry carries the id of a chatroom of the
  store whose \<open>user_id\<close> is the requester. The outcome is the same as on the store from
  which every chatroom with another \<open>user_id\<close> has been removed, so a chatroom in which
  the requester is only the \<open>seller_id\<close> never shows in it.
\<close>

theorem get_user_chatrooms_scope:
  "((\<forall>c\<in>set (chatrooms db). c_user_id c \<noteq> u_user_id user) \<longrightarrow>
      get_user_chatrooms user db =
        (db, Inl (HTTPException 404 ''No chatrooms found for this user''))) \<and>
   (get_user_chatrooms user db = (db', Inr (ChatroomList st rs)) \<longrightarrow>
      length rs \<le> 100 \<and>
      (\<forall>r\<in>set rs. \<exists>c\<in>set (chatrooms db).
          c_user_id c = u_user_id user \<and> r_chatroom_id r = str (c_id c))) \<and>
   snd (get_user_chatrooms user
          (db\<lparr>chatrooms := filter (\<lambda>c. c_user_id c = u_user_id user) (chatrooms db)\<rparr>)) =
     snd (get_user_chatrooms user db)"
proof (intro conjI impI)
  assume "\<forall>c\<in>set (chatrooms db). c_user_id c \<noteq> u_user_id user"
  then have "filter (\<lambda>c. c_user_id c = u_user_id user) (chatrooms db) = []"
    by (simp add: filter_empty_conv)
  then show "get_user_chatrooms user db =
        (db, Inl (HTTPException 404 ''No chatrooms found for this user''))"
    by (simp add: get_user_chatrooms_none)
next
  assume ok: "get_user_chatrooms user db = (db', Inr (ChatroomList st rs))"
  let ?rooms = "take 100 (filter (\<lambda>c. c_user_id c = u_user_id user) (chatrooms db))"
  have ne: "?rooms \<noteq> []"
  proof
    assume "?rooms = []"
    from get_user_chatrooms_none[OF this] ok show False by simp
  qed
  from get_user_chatrooms_some[OF ne] ok
  have rs: "rs = concat (map (seller_entry (sellers db)) ?rooms)" by simp
  have "length rs \<le> length ?rooms"
    unfolding rs entries_length by (rule length_filter_le)
  then show "length rs \<le> 100" by simp
  show "\<forall>r\<in>set rs. \<exists>c\<in>set (chatrooms db).
          c_user_id c = u_user_id user \<and> r_chatroom_id r = str (c_id c)"
  proof
    fix r assume "r \<in> set rs"
    with rs entries_origin obtain c where c: "c \<in> set ?rooms" "r_chatroom_id r = str (c_id c)"
      by blast
    from c(1) have "c \<in> set (filter (\<lambda>c. c_user_id c = u_user_id user) (chatrooms db))"
      by (rule in_set_takeD)
    with c(2) show "\<exists>c\<in>set (chatrooms db).
          c_user_id c = u_user_id user \<and> r_chatroom_id r = str (c_id c)"
      by auto
  qed
next
  let ?db = "db\<lparr>chatrooms := filter (\<lambda>c. c_user_id c = u_user_id user) (chatrooms db)\<rparr>"
  show "snd (get_user_chatrooms user ?db) = snd (get_user_chatrooms user db)"
    by (simp add: get_user_chatrooms_def to_list_def find_docs_def Let_def)
qed

theorem get_user_chatrooms_scope_witness:
  "get_user_chatrooms s1 store4 =
     (store4, Inl (HTTPException 404 ''No chatrooms found for this user'')) \<and>
   get_user_chatrooms u2 store4 =
     (store4, Inr (ChatroomList ''OK''
        [\<lparr>r_chatroom_id = ''000000000000000000000004'', r_seller_name = ''Alice'',
          r_seller_avatar = ''alice.png''\<rparr>])) \<and>
   (\<exists>c\<in>set (chatrooms store4).
       c_user_id c = u_user_id u2 \<and> ''000000000000000000000004'' = str (c_id c)) \<and>
   snd (get_user_chatrooms u1
          (store4\<lparr>chatrooms := filter (\<lambda>c. c_user_id c = u_user_id u1) (chatrooms store4)\<rparr>)) =
     snd (get_user_chatrooms u1 store4)"
proof -
  have a: "\<forall>c\<in>set (chatrooms store4). c_user_id c \<noteq> u_user_id s1"
    by (simp add: store4_def room1_def room2_def room3_def room4_def s1_def)
  have b: "get_user_chatrooms u2 store4 =
     (store4, Inr (ChatroomList ''OK''
        [\<lparr>r_chatroom_id = ''000000000000000000000004'', r_seller_name = ''Alice'',
          r_seller_avatar = ''alice.png''\<rparr>]))"
    by (simp add: get_user_chatrooms_def to_list_def find_docs_def find_one_def store4_def
          room1_def room2_def room3_def room4_def u2_def str_def hexlify_def oid4_def)
  from a b
    get_user_chatrooms_scope [where user = s1 and db = store4]
    get_user_chatrooms_scope [where user = u2 and db = store4 and db' = store4
      and st = "''OK''"
      and rs = "[\<lparr>r_chatroom_id = ''000000000000000000000004'', r_seller_name = ''Alice'',
          r_seller_avatar = ''alice.png''\<rparr>]"]
    get_user_chatrooms_scope [where user = u1 and db = store4]
  show ?thesis by simp
qed

subsection \<open>The chatrooms collection along an execution\<close>

lemma create_chatroom_conflict:
  assumes "u_user_id user \<noteq> seller_id"
    and "c \<in> set (chatrooms db)"
    and "c_user_id c = u_user_id user" and "c_seller_id c = seller_id"
  shows "create_chatroom seller_id user now new_id db =
           (db, Inl (HTTPException 400
                       ''Chatroom already exists between this user and seller.''))"
proof -
  from find_one_Some_ex[of c "chatrooms db"
         "\<lambda>c. c_user_id c = u_user_id user \<and> c_seller_id c = seller_id"] assms
  obtain d where "find_one (\<lambda>c. c_user_id c = u_user_id user \<and> c_seller_id c = seller_id)
                    (chatrooms db) = Some d"
    by auto
  with assms(1) show ?thesis by (simp add: create_chatroom_def)
qed

lemma create_chatroom_new:
  assumes "u_user_id user \<noteq> seller_id"
    and "\<forall>c\<in>set (chatrooms db). \<not> (c_user_id c = u_user_id user \<and> c_seller_id c = seller_id)"
  shows "create_chatroom seller_id user now new_id db =
           (db\<lparr>chatrooms := chatrooms db @
                 [\<lparr>c_id = new_id, c_user_id = u_user_id user, c_seller_id = seller_id,
                   c_created_at = now\<rparr>]\<rparr>,
            Inr (ChatroomCreated ''OK'' (str new_id) ''Chatroom created successfully''))"
proof -
  from assms(2)
  have "find_one (\<lambda>c. c_user_id c = u_user_id user \<and> c_seller_id c = seller_id)
          (chatrooms db) = None"
    by (simp add: find_one_None_iff)
  with assms(1) show ?thesis by (simp add: create_chatroom_def insert_one_def)
qed

lemma create_chatroom_chatrooms:
  "chatrooms (fst (create_chatroom seller_id user now new_id db)) = chatrooms db \<or>
   (\<exists>c. chatrooms (fst (create_chatroom seller_id user now new_id db)) = chatrooms db @ [c] \<and>
        (c_user_id c, c_seller_id c) \<notin> (\<lambda>c. (c_user_id c, c_seller_id c)) ` set (chatrooms db))"
proof (cases "u_user_id user \<noteq> seller_id \<and>
    (\<forall>c\<in>set (chatrooms db). \<not> (c_user_id c = u_user_id user \<and> c_seller_id c = seller_id))")
  case True
  then have "create_chatroom seller_id user now new_id db =
           (db\<lparr>chatrooms := chatrooms db @
                 [\<lparr>c_id = new_id, c_user_id = u_user_id user, c_seller_id = seller_id,
                   c_created_at = now\<rparr>]\<rparr>,
            Inr (ChatroomCreated ''OK'' (str new_id) ''Chatroom created successfully''))"
    by (intro create_chatroom_new) simp_all
  with True show ?thesis by auto
next
  case False
  then have "fst (create_chatroom seller_id user now new_id db) = db"
    using create_chatroom_conflict[of user seller_id _ db now new_id]
    by (cases "u_user_id user = seller_id") (auto simp: create_chatroom_def)
  then show ?thesis by simp
qed

lemma get_messages_store: "fst (get_messages cid user db) = db"
  by (simp add: get_messages_def Let_def split: sum.splits option.splits)

lemma send_message_chatrooms:
  "chatrooms (fst (send_message cid message user now1 now2 db)) = chatrooms db"
  by (simp add: send_message_def Let_def split: sum.splits option.splits)

lemma get_user_chatrooms_store: "fst (get_user_chatrooms user db) = db"
  by (simp add: get_user_chatrooms_def Let_def)

lemma handle_chatrooms:
  "chatrooms (fst (handle r db)) = chatrooms db \<or>
   (\<exists>c. chatrooms (fst (handle r db)) = chatrooms db @ [c] \<and>
        (c_user_id c, c_seller_id c) \<notin> (\<lambda>c. (c_user_id c, c_seller_id c)) ` set (chatrooms db))"
proof (cases r)
  case (CreateChatroom seller_id user now new_id)
  then show ?thesis using create_chatroom_chatrooms[of seller_id user now new_id db] by simp
next
  case (GetMessages cid user)
  then show ?thesis by (simp add: get_messages_store)
next
  case (SendMessage cid message user now1 now2)
  then show ?thesis by (simp add: send_message_chatrooms)
next
  case (GetUserChatrooms user)
  then show ?thesis by (simp add: get_user_chatrooms_store)
qed

lemma handle_pair_unique: "pair_unique db \<Longrightarrow> pair_unique (fst (handle r db))"
  using handle_chatrooms[of r db] by (auto simp: pair_unique_def)

lemma run_pair_unique: "pair_unique db \<Longrightarrow> pair_unique (run rs db)"
  by (induction rs arbitrary: db) (simp_all add: handle_pair_unique)

lemma handle_keeps: "c \<in> set (chatrooms db) \<Longrightarrow> c \<in> set (chatrooms (fst (handle r db)))"
  using handle_chatrooms[of r db] by auto

lemma run_keeps: "c \<in> set (chatrooms db) \<Longrightarrow> c \<in> set (chatrooms (run rs db))"
  by (induction rs arbitrary: db) (simp_all add: handle_keeps)

subsection \<open>One chatroom per ordered pair\<close>

text \<open>
  C3. Every request preserves \<open>pair_unique\<close> (no two chatrooms with the same ordered
  pair \<open>(user_id, seller_id)\<close>), and so does every sequence of requests. When the
  requester differs from \<open>seller_id\<close> and the store has no chatroom with exactly this
  \<open>user_id\<close> and \<open>seller_id\<close>, \<open>create_chatroom\<close> succeeds and appends the new chatroom;
  after it, and after any further requests, \<open>create_chatroom\<close> for the same ordered
  pair raises the HTTP 400 exception "Chatroom already exists between this user and
  seller." and returns the store it was given. That exception is raised exactly when
  a chatroom with the same \<open>user_id\<close> and the same \<open>seller_id\<close> exists, so a chatroom
  with the two fields exchanged does not cause it.
\<close>

theorem chatroom_pair_invariant:
  "(pair_unique db \<longrightarrow> pair_unique (fst (handle r db)) \<and> pair_unique (run rs db)) \<and>
   (u_user_id user \<noteq> seller_id \<and>
    (\<forall>c\<in>set (chatrooms db). \<not> (c_user_id c = u_user_id user \<and> c_seller_id c = seller_id)) \<longrightarrow>
      create_chatroom seller_id user now new_id db =
        (db\<lparr>chatrooms := chatrooms db @
              [\<lparr>c_id = new_id, c_user_id = u_user_id user, c_seller_id = seller_id,
                c_created_at = now\<rparr>]\<rparr>,
         Inr (ChatroomCreated ''OK'' (str new_id) ''Chatroom created successfully'')) \<and>
      (\<forall>later user' now' new_id'. u_user_id user' = u_user_id user \<longrightarrow>
         create_chatroom seller_id user' now' new_id'
             (run later (fst (create_chatroom seller_id user now new_id db))) =
           (run later (fst (create_chatroom seller_id user now new_id db)),
            Inl (HTTPException 400
                   ''Chatroom already exists between this user and seller.'')))) \<and>
   (snd (create_chatroom seller_id user now new_id db) =
      Inl (HTTPException 400 ''Chatroom already exists between this user and seller.'') \<longleftrightarrow>
    u_user_id user \<noteq> seller_id \<and>
    (\<exists>c\<in>set (chatrooms db). c_user_id c = u_user_id user \<and> c_seller_id c = seller_id))"
proof (intro conjI impI allI)
  assume "pair_unique db"
  then show "pair_unique (fst (handle r db))" and "pair_unique (run rs db)"
    by (simp_all add: handle_pair_unique run_pair_unique)
next
  assume new: "u_user_id user \<noteq> seller_id \<and>
    (\<forall>c\<in>set (chatrooms db). \<not> (c_user_id c = u_user_id user \<and> c_seller_id c = seller_id))"
  then show created: "create_chatroom seller_id user now new_id db =
        (db\<lparr>chatrooms := chatrooms db @
              [\<lparr>c_id = new_id, c_user_id = u_user_id user, c_seller_id = seller_id,
                c_created_at = now\<rparr>]\<rparr>,
         Inr (ChatroomCreated ''OK'' (str new_id) ''Chatroom created successfully''))"
    by (intro create_chatroom_new) simp_all
  fix later and user' :: current_user and now' new_id'
  assume same: "u_user_id user' = u_user_id user"
  let ?c = "\<lparr>c_id = new_id, c_user_id = u_user_id user, c_seller_id = seller_id,
             c_created_at = now\<rparr>"
  let ?db1 = "fst (create_chatroom seller_id user now new_id db)"
  from created have "?c \<in> set (chatrooms ?db1)" by simp
  then have "?c \<in> set (chatrooms (run later ?db1))" by (rule run_keeps)
  with new same
  show "create_chatroom seller_id user' now' new_id' (run later ?db1) =
           (run later ?db1,
            Inl (HTTPException 400 ''Chatroom already exists between this user and seller.''))"
    by (intro create_chatroom_conflict[of _ _ ?c]) simp_all
next
  show "snd (create_chatroom seller_id user now new_id db) =
      Inl (HTTPException 400 ''Chatroom already exists between this user and seller.'') \<longleftrightarrow>
    u_user_id user \<noteq> seller_id \<and>
    (\<exists>c\<in>set (chatrooms db). c_user_id c = u_user_id user \<and> c_seller_id c = seller_id)"
  proof (cases "u_user_id user = seller_id")
    case True
    then show ?thesis by (simp add: create_chatroom_def)
  next
    case False
    show ?thesis
    proof (cases "\<exists>c\<in>set (chatrooms db). c_user_id c = u_user_id user \<and> c_seller_id c = seller_id")
      case True
      then obtain c where "c \<in> set (chatrooms db)" "c_user_id c = u_user_id user"
        "c_seller_id c = seller_id" by blast
      from create_chatroom_conflict[OF False this, of now new_id] False True
      show ?thesis by simp
    next
      case no: False
      then have "\<forall>c\<in>set (chatrooms db).
          \<not> (c_user_id c = u_user_id user \<and> c_seller_id c = seller_id)" by blast
      from create_chatroom_new[OF False this, of now new_id] no
      show ?thesis by simp
    qed
  qed
qed

theorem chatroom_pair_invariant_witness:
  "pair_unique store4 \<and>
   pair_unique (fst (handle (CreateChatroom ''u2'' u1 ''2024-02-01T00:00:00'' oid5) store4)) \<and>
   pair_unique (run later_requests store4) \<and>
   room4 \<in> set (chatrooms store4) \<and> c_user_id room4 = ''u2'' \<and> c_seller_id room4 = ''u1'' \<and>
   create_chatroom ''u2'' u1 ''2024-02-01T00:00:00'' oid5 store4 =
     (store4\<lparr>chatrooms := chatrooms store4 @
        [\<lparr>c_id = oid5, c_user_id = ''u1'', c_seller_id = ''u2'',
          c_created_at = ''2024-02-01T00:00:00''\<rparr>]\<rparr>,
      Inr (ChatroomCreated ''OK'' ''000000000000000000000005''
             ''Chatroom created successfully'')) \<and>
   create_chatroom ''u2'' u1 ''2024-02-02T00:00:00'' oid6
       (run later_requests
          (fst (create_chatroom ''u2'' u1 ''2024-02-01T00:00:00'' oid5 store4))) =
     (run later_requests (fst (create_chatroom ''u2'' u1 ''2024-02-01T00:00:00'' oid5 store4)),
      Inl (HTTPException 400 ''Chatroom already exists between this user and seller.'')) \<and>
   snd (create_chatroom ''u2'' u1 ''2024-02-01T00:00:00'' oid5 store4) \<noteq>
     Inl (HTTPException 400 ''Chatroom already exists between this user and seller.'')"
proof -
  note inst = chatroom_pair_invariant [where db = store4 and user = u1 and seller_id = "''u2''"
      and now = "''2024-02-01T00:00:00''" and new_id = oid5 and rs = later_requests
      and r = "CreateChatroom ''u2'' u1 ''2024-02-01T00:00:00'' oid5"]
  have pu: "pair_unique store4"
    by (simp add: pair_unique_def store4_def room1_def room2_def room3_def room4_def)
  have rev: "room4 \<in> set (chatrooms store4)" "c_user_id room4 = ''u2''"
    "c_seller_id room4 = ''u1''"
    by (simp_all add: store4_def room4_def)
  have ne: "u_user_id u1 \<noteq> ''u2''" and uid: "u_user_id u1 = ''u1''"
    by (simp_all add: u1_def)
  have no: "\<forall>c\<in>set (chatrooms store4). \<not> (c_user_id c = u_user_id u1 \<and> c_seller_id c = ''u2'')"
    by (simp add: store4_def room1_def room2_def room3_def room4_def u1_def)
  have st: "str oid5 = ''000000000000000000000005''"
    by (simp add: str_def hexlify_def oid5_def)
  from inst pu have a: "pair_unique (fst (handle (CreateChatroom ''u2'' u1 ''2024-02-01T00:00:00'' oid5) store4))"
    "pair_unique (run later_requests store4)"
    by blast+
  from inst ne no have b: "create_chatroom ''u2'' u1 ''2024-02-01T00:00:00'' oid5 store4 =
        (store4\<lparr>chatrooms := chatrooms store4 @
              [\<lparr>c_id = oid5, c_user_id = u_user_id u1, c_seller_id = ''u2'',
                c_created_at = ''2024-02-01T00:00:00''\<rparr>]\<rparr>,
         Inr (ChatroomCreated ''OK'' (str oid5) ''Chatroom created successfully''))"
    by blast
  from inst ne no have "\<forall>later user' now' new_id'. u_user_id user' = u_user_id u1 \<longrightarrow>
         create_chatroom ''u2'' user' now' new_id'
             (run later (fst (create_chatroom ''u2'' u1 ''2024-02-01T00:00:00'' oid5 store4))) =
           (run later (fst (create_chatroom ''u2'' u1 ''2024-02-01T00:00:00'' oid5 store4)),
            Inl (HTTPException 400
                   ''Chatroom already exists between this user and seller.''))"
    by blast
  then have c: "create_chatroom ''u2'' u1 ''2024-02-02T00:00:00'' oid6
       (run later_requests
          (fst (create_chatroom ''u2'' u1 ''2024-02-01T00:00:00'' oid5 store4))) =
     (run later_requests (fst (create_chatroom ''u2'' u1 ''2024-02-01T00:00:00'' oid5 store4)),
      Inl (HTTPException 400 ''Chatroom already exists between this user and seller.''))"
    by blast
  from inst no have d: "snd (create_chatroom ''u2'' u1 ''2024-02-01T00:00:00'' oid5 store4) \<noteq>
     Inl (HTTPException 400 ''Chatroom already exists between this user and seller.'')"
    by blast
  from b have b': "create_chatroom ''u2'' u1 ''2024-02-01T00:00:00'' oid5 store4 =
     (store4\<lparr>chatrooms := chatrooms store4 @
        [\<lparr>c_id = oid5, c_user_id = ''u1'', c_seller_id = ''u2'',
          c_created_at = ''2024-02-01T00:00:00''\<rparr>]\<rparr>,
      Inr (ChatroomCreated ''OK'' ''000000000000000000000005''
             ''Chatroom created successfully''))"
    unfolding st uid .
  from pu a rev b' c d show ?thesis by blast
qed

end
